theory Spec2Isabelle
  imports Complex_Main
begin

section \<open>JavaScript values\<close>

text \<open>
  A JavaScript \<open>number\<close> is modelled as an exact rational: token counts, budgets and
  per-token rates are all of this one type, as in the source. Truthiness, comparison,
  halving and \<open>Math.floor\<close> are exact on finite doubles and agree with the model.
  Products and sums of rates are rounded by the source and exact here: a cost is
  therefore stated as the expression the source computes, and compared with a decimal
  only within a tolerance far above the rounding of doubles. \<open>NaN\<close> and the infinities
  are outside the model. A value of type \<open>number | undefined\<close> (or \<open>number | null\<close>)
  is a \<open>number option\<close>.
\<close>

type_synonym number = rat

text \<open>Truthiness of an optional number: \<open>undefined\<close>, \<open>null\<close> and \<open>0\<close> are falsy.\<close>

definition truthy :: "number option \<Rightarrow> bool" where
  "truthy x = (case x of None \<Rightarrow> False | Some v \<Rightarrow> v \<noteq> 0)"

text \<open>\<open>x || d\<close> with a number default, \<open>x || undefined\<close>, and \<open>Math.floor\<close>.\<close>

definition or_default :: "number option \<Rightarrow> number \<Rightarrow> number" where
  "or_default x d = (if truthy x then the x else d)"

definition or_undefined :: "number option \<Rightarrow> number option" where
  "or_undefined x = (if truthy x then x else None)"

definition string_or_undefined :: "string option \<Rightarrow> string option" where
  "string_or_undefined x = (case x of None \<Rightarrow> None | Some s \<Rightarrow> if s = [] then None else Some s)"

definition Math_floor :: "number \<Rightarrow> number" where
  "Math_floor x = of_int \<lfloor>x\<rfloor>"

text \<open>
  A value that came out of \<open>JSON.parse\<close> or that the vendor sent as \<open>unknown\<close>.
  Objects keep their keys in order.
\<close>

datatype json =
    JNull
  | JBool bool
  | JNumber number
  | JString string
  | JArray "json list"
  | JObject "(string \<times> json) list"

text \<open>\<open>typeof v\<close>: \<open>null\<close> and arrays answer \<open>"object"\<close>, as JavaScript has it.\<close>

fun typeof :: "json \<Rightarrow> string" where
  "typeof JNull = ''object''"
| "typeof (JBool b) = ''boolean''"
| "typeof (JNumber n) = ''number''"
| "typeof (JString s) = ''string''"
| "typeof (JArray xs) = ''object''"
| "typeof (JObject kvs) = ''object''"

text \<open>
  \<open>"type" in v\<close> for a value whose \<open>typeof\<close> is \<open>"object"\<close> and that is not \<open>null\<close>:
  an object has the property when the key is among its keys; an array has its indices
  and \<open>length\<close> only.
\<close>

fun type_in :: "json \<Rightarrow> bool" where
  "type_in (JObject kvs) = (''type'' \<in> fst ` set kvs)"
| "type_in v = False"

text \<open>What a rejected promise or a throw carries.\<close>

datatype error = Error string

section \<open>The canonical content model\<close>

text \<open>
  Modelled from the spec: the declarations of \<open>../types\<close> are not among the sources.
  The content blocks are the tagged union of section 3 of the specification, with the
  fields \<open>anthropic.ts\<close> and its tests read and write.
\<close>

datatype ContentBlock =
    TextBlock string
  | ImageBlock string
  | ImageDataBlock string string
  | ThinkingBlock string string
  | RedactedThinkingBlock string
  | ToolUseBlock string string
  | ToolResultBlock string string

text \<open>
  The arguments are, in order: the text; the URL; the MIME type and the base64 data;
  the thinking text and the signature; the redacted data; the tool's name and its
  serialized input; the tool's name and its serialized result.
\<close>

text \<open>\<open>msg.content\<close> is either a string or an array of content blocks.\<close>

datatype MessageContent = StringContent string | BlockContent "ContentBlock list"

record Message =
  role :: string
  content :: MessageContent

record UsageResponse =
  inputCost :: number
  outputCost :: number
  totalCost :: number

text \<open>\<open>AIResponse\<close> and \<open>ChatResponse\<close> have the same three fields.\<close>

record AIResponse =
  responseRole :: string
  responseContent :: "ContentBlock list"
  usage :: "UsageResponse option"

type_synonym ChatResponse = AIResponse

record MCPTool =
  toolName :: string
  toolDescription :: string
  input_schema :: json

record VendorConfig =
  apiKey :: string
  baseURL :: "string option"

record ModelConfig =
  apiName :: string
  isVision :: bool
  isImageGeneration :: bool
  isThinking :: bool
  modelInputTokenCost :: "number option"
  modelOutputTokenCost :: "number option"

section \<open>The vendor's wire format\<close>

text \<open>The two block shapes the outbound mapping can emit.\<close>

datatype BlockParam =
    TextParam string
  | ThinkingParam string string

datatype MessageParamContent = StringParam string | BlocksParam "BlockParam list"

record MessageParam =
  paramRole :: string
  paramContent :: MessageParamContent

record AnthropicTool =
  anthropicName :: string
  anthropicDescription :: string
  anthropicInputSchema :: json

record ThinkingConfig =
  thinkingType :: string
  budget_tokens :: number

text \<open>The argument of \<open>client.messages.create\<close>; an absent key is \<open>None\<close>.\<close>

record MessageCreateParams =
  requestModel :: string
  requestMessages :: "MessageParam list"
  system :: "string option"
  max_tokens :: number
  requestThinking :: "ThinkingConfig option"
  requestTools :: "AnthropicTool list option"

text \<open>
  The blocks of the vendor's response. \<open>OtherBlock\<close> stands for every block whose
  \<open>type\<close> is none of \<open>thinking\<close>, \<open>text\<close>, \<open>tool_use\<close>, and carries that tag.
\<close>

datatype VendorBlock =
    VendorThinking string string
  | VendorText string
  | VendorToolUse string string json
  | OtherBlock string

record VendorUsage =
  input_tokens :: "number option"
  output_tokens :: "number option"

record VendorResponse =
  vendorContent :: "VendorBlock list"
  vendorUsage :: VendorUsage

section \<open>External collaborators\<close>

text \<open>
  The SDK client and the JSON built-ins are not code of the adapter; the adapter's
  functions take them as a parameter. \<open>Anthropic\<close> is \<open>new Anthropic({apiKey, baseURL})\<close>
  followed by \<open>messages.create\<close>: it answers a response or rejects. \<open>JSON_parse\<close> answers
  \<open>None\<close> where \<open>JSON.parse\<close> throws. \<open>JSON_stringify_block\<close> renders one content block
  object (its key order is that of the object at run time).
\<close>

type_synonym Client = "MessageCreateParams \<Rightarrow> error + VendorResponse"

record Runtime =
  Anthropic :: "string \<Rightarrow> string option \<Rightarrow> Client"
  JSON_parse :: "string \<Rightarrow> json option"
  JSON_stringify :: "json \<Rightarrow> string"
  JSON_stringify_block :: "ContentBlock \<Rightarrow> string"

text \<open>\<open>Array.prototype.join\<close>.\<close>

fun join :: "string \<Rightarrow> string list \<Rightarrow> string" where
  "join sep [] = []"
| "join sep [x] = x"
| "join sep (x # y # ys) = x @ sep @ join sep (y # ys)"

text \<open>\<open>JSON.stringify\<close> of an array of content blocks: the elements between brackets.\<close>

definition JSON_stringify_content :: "Runtime \<Rightarrow> ContentBlock list \<Rightarrow> string" where
  "JSON_stringify_content rt blocks =
     ''['' @ join '','' (map (JSON_stringify_block rt) blocks) @ '']''"

text \<open>
  Modelled from the spec: \<open>computeResponseCost\<close> of \<open>../utils\<close>, which is not among the
  sources. Section 4.3: cost = tokenCount * (ratePerMillionTokens / 1_000_000).
\<close>

definition computeResponseCost :: "number \<Rightarrow> number \<Rightarrow> number" where
  "computeResponseCost tokenCount ratePerMillionTokens =
     tokenCount * (ratePerMillionTokens / 1000000)"

section \<open>The adapter\<close>

record AnthropicAdapter =
  client :: Client
  isVisionCapable :: bool
  isImageGenerationCapable :: bool
  isThinkingCapable :: bool
  inputTokenCost :: "number option"
  outputTokenCost :: "number option"

text \<open>The constructor: the two costs are stored only when both are truthy.\<close>

definition new_AnthropicAdapter :: "Runtime \<Rightarrow> VendorConfig \<Rightarrow> ModelConfig \<Rightarrow> AnthropicAdapter" where
  "new_AnthropicAdapter rt config modelConfig =
     (let stored = truthy (modelInputTokenCost modelConfig) \<and> truthy (modelOutputTokenCost modelConfig)
      in \<lparr> client = Anthropic rt (apiKey config) (baseURL config),
           isVisionCapable = isVision modelConfig,
           isImageGenerationCapable = isImageGeneration modelConfig,
           isThinkingCapable = isThinking modelConfig,
           inputTokenCost = (if stored then modelInputTokenCost modelConfig else None),
           outputTokenCost = (if stored then modelOutputTokenCost modelConfig else None) \<rparr>)"

subsection \<open>generateResponse\<close>

record AIRequestOptions =
  model :: string
  messages :: "Message list"
  maxTokens :: "number option"
  budgetTokens :: "number option"
  systemPrompt :: "string option"
  thinkingMode :: "bool option"
  tools :: "AnthropicTool list option"

text \<open>The callback of \<open>msg.content.reduce\<close>: it pushes one block or none.\<close>

fun reduceBlock :: "BlockParam list \<Rightarrow> ContentBlock \<Rightarrow> BlockParam list" where
  "reduceBlock acc (TextBlock t) = acc @ [TextParam t]"
| "reduceBlock acc (ThinkingBlock t s) = acc @ [ThinkingParam t s]"
| "reduceBlock acc block = acc"

definition mappedContent :: "ContentBlock list \<Rightarrow> BlockParam list" where
  "mappedContent blocks = foldl reduceBlock [] blocks"

text \<open>The callback of \<open>messages.map\<close>.\<close>

definition formatMessage :: "Runtime \<Rightarrow> Message \<Rightarrow> MessageParam" where
  "formatMessage rt msg =
     (let r = (if role msg = ''assistant'' then ''assistant'' else ''user'')
      in case content msg of
           StringContent s \<Rightarrow> \<lparr> paramRole = r, paramContent = StringParam s \<rparr>
         | BlockContent blocks \<Rightarrow>
             \<lparr> paramRole = r,
               paramContent =
                 (if length (mappedContent blocks) > 0
                  then BlocksParam (mappedContent blocks)
                  else StringParam (JSON_stringify_content rt blocks)) \<rparr>)"

definition formattedMessages :: "Runtime \<Rightarrow> Message list \<Rightarrow> MessageParam list" where
  "formattedMessages rt msgs = map (formatMessage rt) msgs"

text \<open>The object passed to \<open>this.client.messages.create\<close>.\<close>

definition createParams :: "Runtime \<Rightarrow> AnthropicAdapter \<Rightarrow> AIRequestOptions \<Rightarrow> MessageCreateParams" where
  "createParams rt this options =
     \<lparr> requestModel = model options,
       requestMessages = formattedMessages rt (messages options),
       system = systemPrompt options,
       max_tokens = or_default (maxTokens options) 1024,
       requestThinking =
         (if thinkingMode options = Some True \<and> isThinkingCapable this
          then Some \<lparr> thinkingType = ''enabled'',
                      budget_tokens =
                        or_default (budgetTokens options)
                          (Math_floor (or_default (maxTokens options) 1024 / 2)) \<rparr>
          else None),
       requestTools = tools options \<rparr>"

text \<open>The usage of the response: computed behind a guard of four truthiness tests.\<close>

definition responseUsage :: "AnthropicAdapter \<Rightarrow> VendorResponse \<Rightarrow> UsageResponse option" where
  "responseUsage this response =
     (if truthy (input_tokens (vendorUsage response)) \<and>
         truthy (output_tokens (vendorUsage response)) \<and>
         truthy (inputTokenCost this) \<and>
         truthy (outputTokenCost this)
      then
        (let inCost = computeResponseCost (the (input_tokens (vendorUsage response)))
                        (the (inputTokenCost this));
             outCost = computeResponseCost (the (output_tokens (vendorUsage response)))
                        (the (outputTokenCost this))
         in Some \<lparr> inputCost = inCost, outputCost = outCost, totalCost = inCost + outCost \<rparr>)
      else None)"

text \<open>The body of the loop over \<open>response.content\<close>.\<close>

fun pushBlock :: "Runtime \<Rightarrow> ContentBlock list \<Rightarrow> VendorBlock \<Rightarrow> ContentBlock list" where
  "pushBlock rt acc (VendorThinking t s) = acc @ [ThinkingBlock t ''anthropic'']"
| "pushBlock rt acc (VendorText t) = acc @ [TextBlock t]"
| "pushBlock rt acc (VendorToolUse i n v) = acc @ [ToolUseBlock n (JSON_stringify rt v)]"
| "pushBlock rt acc (OtherBlock tag) = acc"

definition contentBlocks :: "Runtime \<Rightarrow> VendorBlock list \<Rightarrow> ContentBlock list" where
  "contentBlocks rt blocks = foldl (pushBlock rt) [] blocks"

definition generateResponse :: "Runtime \<Rightarrow> AnthropicAdapter \<Rightarrow> AIRequestOptions \<Rightarrow> error + AIResponse" where
  "generateResponse rt this options =
     (case client this (createParams rt this options) of
        Inl e \<Rightarrow> Inl e
      | Inr response \<Rightarrow>
          Inr \<lparr> responseRole = ''assistant'',
                responseContent = contentBlocks rt (vendorContent response),
                usage = responseUsage this response \<rparr>)"

subsection \<open>generateImage\<close>

record Chat =
  chatModel :: string
  responseHistory :: "Message list"
  prompt :: string
  chatSystemPrompt :: "string option"
  chatMaxTokens :: "number option"
  chatBudgetTokens :: "number option"
  mcpAvailableTools :: "MCPTool list option"

text \<open>The body is a single \<open>throw\<close>; neither the adapter nor the chat is read.\<close>

definition generateImage :: "AnthropicAdapter \<Rightarrow> Chat \<Rightarrow> error + string" where
  "generateImage this chat = Inl (Error ''Image generation not supported by Anthropic'')"

subsection \<open>sendChat\<close>

text \<open>The history is copied and the prompt, when truthy, pushed as a user message.\<close>

definition messagesToSend :: "Chat \<Rightarrow> Message list" where
  "messagesToSend chat =
     (let copy = responseHistory chat
      in if prompt chat \<noteq> []
         then copy @ [\<lparr> role = ''user'', content = BlockContent [TextBlock (prompt chat)] \<rparr>]
         else copy)"

definition fallbackSchema :: json where
  "fallbackSchema = JObject [(''type'', JString ''object''), (''properties'', JObject [])]"

text \<open>
  The schema of one tool. The \<open>catch\<close> around \<open>JSON.parse\<close> is the \<open>None\<close> branch; the
  calls of \<open>console.error\<close> are not modelled.
\<close>

definition schemaObject :: "Runtime \<Rightarrow> json \<Rightarrow> json" where
  "schemaObject rt schema =
     (case schema of
        JString s \<Rightarrow>
          (case JSON_parse rt s of
             None \<Rightarrow> fallbackSchema
           | Some parsedSchema \<Rightarrow>
               if typeof parsedSchema = ''object'' \<and> parsedSchema \<noteq> JNull \<and> type_in parsedSchema
               then parsedSchema
               else fallbackSchema)
      | other \<Rightarrow>
          if typeof schema = ''object'' \<and> schema \<noteq> JNull
          then (if type_in schema then schema else fallbackSchema)
          else fallbackSchema)"

text \<open>The callback of \<open>chat.mcpAvailableTools.map\<close>.\<close>

definition formatTool :: "Runtime \<Rightarrow> MCPTool \<Rightarrow> AnthropicTool" where
  "formatTool rt tool =
     \<lparr> anthropicName = toolName tool,
       anthropicDescription = toolDescription tool,
       anthropicInputSchema = schemaObject rt (input_schema tool) \<rparr>"

definition formattedTools :: "Runtime \<Rightarrow> Chat \<Rightarrow> AnthropicTool list option" where
  "formattedTools rt chat =
     (case mcpAvailableTools chat of
        None \<Rightarrow> None
      | Some ts \<Rightarrow> if length ts > 0 then Some (map (formatTool rt) ts) else None)"

text \<open>The options object \<open>sendChat\<close> hands to \<open>generateResponse\<close>.\<close>

definition sendChatOptions :: "Runtime \<Rightarrow> Chat \<Rightarrow> AIRequestOptions" where
  "sendChatOptions rt chat =
     \<lparr> model = chatModel chat,
       messages = messagesToSend chat,
       maxTokens = or_undefined (chatMaxTokens chat),
       budgetTokens = or_undefined (chatBudgetTokens chat),
       systemPrompt = string_or_undefined (chatSystemPrompt chat),
       thinkingMode = Some ((case chatBudgetTokens chat of None \<Rightarrow> 0 | Some b \<Rightarrow> b) > 0),
       tools = formattedTools rt chat \<rparr>"

definition sendChat :: "Runtime \<Rightarrow> AnthropicAdapter \<Rightarrow> Chat \<Rightarrow> error + ChatResponse" where
  "sendChat rt this chat =
     (case generateResponse rt this (sendChatOptions rt chat) of
        Inl e \<Rightarrow> Inl e
      | Inr response \<Rightarrow>
          Inr \<lparr> responseRole = responseRole response,
                responseContent = responseContent response,
                usage = usage response \<rparr>)"

subsection \<open>The members of the class\<close>

text \<open>
  The class declares the constructor, \<open>generateResponse\<close>, \<open>generateImage\<close> and
  \<open>sendChat\<close>, and nothing else: its last line is the comment that \<open>sendMCPChat\<close> was
  removed. There is no body of \<open>sendMCPChat\<close> to embed.
\<close>

section \<open>The round trip through the vendor\<close>

text \<open>
  The kinds of block the outbound mapping keeps: text and thinking. Everything else is
  dropped.
\<close>

fun supported :: "ContentBlock \<Rightarrow> bool" where
  "supported (TextBlock t) = True"
| "supported (ThinkingBlock t s) = True"
| "supported block = False"

text \<open>
  The vendor's echo of what it was sent: each outbound block comes back as the response
  block of the same kind with the same fields. A string payload is the API's shorthand
  for one text block and comes back as that block.
\<close>

fun echoBlock :: "BlockParam \<Rightarrow> VendorBlock" where
  "echoBlock (TextParam t) = VendorText t"
| "echoBlock (ThinkingParam t s) = VendorThinking t s"

definition echo :: "MessageParamContent \<Rightarrow> VendorBlock list" where
  "echo c = (case c of BlocksParam ps \<Rightarrow> map echoBlock ps | StringParam s \<Rightarrow> [VendorText s])"

definition roundTrip :: "Runtime \<Rightarrow> Message \<Rightarrow> ContentBlock list" where
  "roundTrip rt msg = contentBlocks rt (echo (paramContent (formatMessage rt msg)))"

text \<open>What a block comes back as: a thinking block carries the adapter's own signature.\<close>

fun resigned :: "ContentBlock \<Rightarrow> ContentBlock" where
  "resigned (ThinkingBlock t s) = ThinkingBlock t ''anthropic''"
| "resigned block = block"

section \<open>The budget as the specification words it\<close>

text \<open>
  The reasoning budget in the words of the specification: \<open>budgetTokens\<close> if positive,
  else the integer floor of half of \<open>maxTokens\<close>, 1024 standing in for an unset
  \<open>maxTokens\<close>. It is compared with what \<open>createParams\<close> sends.
\<close>

definition specBudget :: "number option \<Rightarrow> number option \<Rightarrow> number" where
  "specBudget budget maxTok =
     (let half = Math_floor ((case maxTok of None \<Rightarrow> 1024 | Some m \<Rightarrow> m) / 2)
      in case budget of None \<Rightarrow> half | Some b \<Rightarrow> if 0 < b then b else half)"

section \<open>Test doubles\<close>

text \<open>
  As the repository's tests replace the SDK by a mock that resolves to a fixed response,
  \<open>mockRuntime response\<close> is a runtime whose client answers \<open>response\<close> to every request.
  Its \<open>JSON.parse\<close> knows the four documents of \<open>mockParse\<close> and throws on every other
  string; its \<open>JSON.stringify\<close> renders every object as \<open>{}\<close>. The doubles serve the
  concrete evaluations below; the theorems hold for every runtime.
\<close>

definition mockParse :: "string \<Rightarrow> json option" where
  "mockParse s =
     (if s = ''{}'' then Some (JObject [])
      else if s = ''[]'' then Some (JArray [])
      else if s = ''null'' then Some JNull
      else if s = ''42'' then Some (JNumber 42)
      else None)"

definition mockRuntime :: "VendorResponse \<Rightarrow> Runtime" where
  "mockRuntime response =
     \<lparr> Anthropic = (\<lambda>key url params. Inr response),
       JSON_parse = mockParse,
       JSON_stringify = (\<lambda>v. ''{}''),
       JSON_stringify_block = (\<lambda>b. ''{}'') \<rparr>"

text \<open>
  The vendor configuration and the model configuration of the repository's tests; the
  rates are the tests' \<open>15 / 1_000_000\<close> and \<open>75 / 1_000_000\<close>.
\<close>

definition mockConfig :: VendorConfig where
  "mockConfig = \<lparr> apiKey = ''test-anthropic-key'', baseURL = None \<rparr>"

definition mockClaude3Opus :: ModelConfig where
  "mockClaude3Opus =
     \<lparr> apiName = ''claude-3-opus-20240229'',
       isVision = True,
       isImageGeneration = False,
       isThinking = True,
       modelInputTokenCost = Some (15 / 1000000),
       modelOutputTokenCost = Some (75 / 1000000) \<rparr>"

definition mockApiResponse :: "number option \<Rightarrow> number option \<Rightarrow> VendorResponse" where
  "mockApiResponse tokensIn tokensOut =
     \<lparr> vendorContent = [VendorText ''Hi there!''],
       vendorUsage = \<lparr> input_tokens = tokensIn, output_tokens = tokensOut \<rparr> \<rparr>"

definition basicOptions :: AIRequestOptions where
  "basicOptions =
     \<lparr> model = ''claude-3-opus-20240229'',
       messages = [\<lparr> role = ''user'', content = BlockContent [TextBlock ''Hello Claude!''] \<rparr>],
       maxTokens = None,
       budgetTokens = None,
       systemPrompt = None,
       thinkingMode = None,
       tools = None \<rparr>"

definition baseChat :: Chat where
  "baseChat =
     \<lparr> chatModel = ''claude-3-opus-20240229'',
       responseHistory = [],
       prompt = ''User prompt'',
       chatSystemPrompt = Some ''System prompt'',
       chatMaxTokens = Some 100,
       chatBudgetTokens = None,
       mcpAvailableTools = None \<rparr>"

text \<open>A response whose first block is of a kind the adapter does not know.\<close>

definition responseWithUnknownBlock :: VendorResponse where
  "responseWithUnknownBlock =
     \<lparr> vendorContent = [OtherBlock ''server_tool_use'', VendorText ''Hi there!''],
       vendorUsage = \<lparr> input_tokens = Some 10, output_tokens = Some 5 \<rparr> \<rparr>"

text \<open>
  Four tool definitions with a malformed schema: a string that is not JSON, a string
  that parses to a number, a string that parses to an object without \<open>type\<close>, and an
  object without \<open>type\<close>.
\<close>

definition badTools :: "MCPTool list" where
  "badTools =
     [\<lparr> toolName = ''search'', toolDescription = ''Search the web'', input_schema = JString ''not json'' \<rparr>,
      \<lparr> toolName = ''count'', toolDescription = ''Count things'', input_schema = JString ''42'' \<rparr>,
      \<lparr> toolName = ''list'', toolDescription = ''List things'', input_schema = JString ''{}'' \<rparr>,
      \<lparr> toolName = ''read'', toolDescription = ''Read a file'', input_schema = JObject [(''properties'', JObject [])] \<rparr>]"

section \<open>Helper lemmas\<close>

lemma truthy_simps:
  "truthy None = False" "truthy (Some v) = (v \<noteq> 0)"
  by (simp_all add: truthy_def)

lemma foldl_reduceBlock: "foldl reduceBlock acc blocks = acc @ foldl reduceBlock [] blocks"
proof (induction blocks arbitrary: acc)
  case Nil
  show ?case by simp
next
  case (Cons b bs)
  have "foldl reduceBlock (reduceBlock acc b) bs = reduceBlock acc b @ foldl reduceBlock [] bs"
    by (rule Cons.IH)
  moreover have "foldl reduceBlock (reduceBlock [] b) bs = reduceBlock [] b @ foldl reduceBlock [] bs"
    by (rule Cons.IH)
  moreover have "reduceBlock acc b = acc @ reduceBlock [] b"
    by (cases b) simp_all
  ultimately show ?case by simp
qed

lemma mappedContent_Nil: "mappedContent [] = []"
  by (simp add: mappedContent_def)

lemma mappedContent_Cons: "mappedContent (b # bs) = reduceBlock [] b @ mappedContent bs"
  unfolding mappedContent_def using foldl_reduceBlock [of "reduceBlock [] b" bs] by simp


lemma foldl_pushBlock: "foldl (pushBlock rt) acc blocks = acc @ foldl (pushBlock rt) [] blocks"
proof (induction blocks arbitrary: acc)
  case Nil
  show ?case by simp
next
  case (Cons b bs)
  have "foldl (pushBlock rt) (pushBlock rt acc b) bs = pushBlock rt acc b @ foldl (pushBlock rt) [] bs"
    by (rule Cons.IH)
  moreover have "foldl (pushBlock rt) (pushBlock rt [] b) bs = pushBlock rt [] b @ foldl (pushBlock rt) [] bs"
    by (rule Cons.IH)
  moreover have "pushBlock rt acc b = acc @ pushBlock rt [] b"
    by (cases b) simp_all
  ultimately show ?case by simp
qed

lemma contentBlocks_Nil: "contentBlocks rt [] = []"
  by (simp add: contentBlocks_def)

lemma contentBlocks_Cons: "contentBlocks rt (b # bs) = pushBlock rt [] b @ contentBlocks rt bs"
  unfolding contentBlocks_def using foldl_pushBlock [of rt "pushBlock rt [] b" bs] by simp

lemma contentBlocks_append: "contentBlocks rt (xs @ ys) = contentBlocks rt xs @ contentBlocks rt ys"
  by (induction xs) (simp_all add: contentBlocks_Nil contentBlocks_Cons)

lemma mappedContent_empty_iff: "mappedContent blocks = [] \<longleftrightarrow> filter supported blocks = []"
proof (induction blocks)
  case Nil
  show ?case by (simp add: mappedContent_Nil)
next
  case (Cons b bs)
  then show ?case by (cases b) (simp_all add: mappedContent_Cons)
qed

lemma echo_mappedContent:
  "contentBlocks rt (map echoBlock (mappedContent blocks)) = map resigned (filter supported blocks)"
proof (induction blocks)
  case Nil
  show ?case by (simp add: mappedContent_Nil contentBlocks_Nil)
next
  case (Cons b bs)
  then show ?case
    by (cases b) (simp_all add: mappedContent_Cons contentBlocks_Cons)
qed

lemma new_AnthropicAdapter_fields:
  "client (new_AnthropicAdapter rt config modelConfig) = Anthropic rt (apiKey config) (baseURL config)"
  "isVisionCapable (new_AnthropicAdapter rt config modelConfig) = isVision modelConfig"
  "isImageGenerationCapable (new_AnthropicAdapter rt config modelConfig) = isImageGeneration modelConfig"
  "isThinkingCapable (new_AnthropicAdapter rt config modelConfig) = isThinking modelConfig"
  "inputTokenCost (new_AnthropicAdapter rt config modelConfig) =
     (if truthy (modelInputTokenCost modelConfig) \<and> truthy (modelOutputTokenCost modelConfig)
      then modelInputTokenCost modelConfig else None)"
  "outputTokenCost (new_AnthropicAdapter rt config modelConfig) =
     (if truthy (modelInputTokenCost modelConfig) \<and> truthy (modelOutputTokenCost modelConfig)
      then modelOutputTokenCost modelConfig else None)"
  by (simp_all add: new_AnthropicAdapter_def Let_def)

lemma mockRuntime_fields:
  "Anthropic (mockRuntime response) key url params = Inr response"
  "JSON_parse (mockRuntime response) = mockParse"
  "JSON_stringify (mockRuntime response) v = ''{}''"
  "JSON_stringify_block (mockRuntime response) b = ''{}''"
  by (simp_all add: mockRuntime_def)

lemma mockClaude3Opus_fields:
  "isVision mockClaude3Opus = True"
  "isImageGeneration mockClaude3Opus = False"
  "isThinking mockClaude3Opus = True"
  "modelInputTokenCost mockClaude3Opus = Some (15 / 1000000)"
  "modelOutputTokenCost mockClaude3Opus = Some (75 / 1000000)"
  by (simp_all add: mockClaude3Opus_def)

lemma mockApiResponse_fields:
  "vendorContent (mockApiResponse tokensIn tokensOut) = [VendorText ''Hi there!'']"
  "input_tokens (vendorUsage (mockApiResponse tokensIn tokensOut)) = tokensIn"
  "output_tokens (vendorUsage (mockApiResponse tokensIn tokensOut)) = tokensOut"
  by (simp_all add: mockApiResponse_def)


lemma generateResponse_Inr:
  assumes "client this (createParams rt this options) = Inr response"
  shows "generateResponse rt this options =
     Inr \<lparr> responseRole = ''assistant'',
           responseContent = contentBlocks rt (vendorContent response),
           usage = responseUsage this response \<rparr>"
  using assms by (simp add: generateResponse_def)

lemma baseChat_fields:
  "chatModel baseChat = ''claude-3-opus-20240229''"
  "responseHistory baseChat = []"
  "prompt baseChat = ''User prompt''"
  "chatSystemPrompt baseChat = Some ''System prompt''"
  "chatMaxTokens baseChat = Some 100"
  "chatBudgetTokens baseChat = None"
  "mcpAvailableTools baseChat = None"
  by (simp_all add: baseChat_def)

lemma contentBlocks_OtherBlock:
  "contentBlocks rt (before @ [OtherBlock tag] @ after) = contentBlocks rt (before @ after)"
  by (simp add: contentBlocks_append contentBlocks_Cons contentBlocks_Nil)

lemma sendChat_eq: "sendChat rt this chat = generateResponse rt this (sendChatOptions rt chat)"
  by (cases "generateResponse rt this (sendChatOptions rt chat)") (simp_all add: sendChat_def)

lemma schemaObject_unparseable: "JSON_parse rt s = None \<Longrightarrow> schemaObject rt (JString s) = fallbackSchema"
  by (simp add: schemaObject_def)

lemma schemaObject_not_object:
  "JSON_parse rt s = Some v \<Longrightarrow> \<forall>kvs. v \<noteq> JObject kvs \<Longrightarrow> schemaObject rt (JString s) = fallbackSchema"
  by (cases v) (simp_all add: schemaObject_def)

lemma schemaObject_parsed_no_type:
  "JSON_parse rt s = Some (JObject kvs) \<Longrightarrow> ''type'' \<notin> fst ` set kvs \<Longrightarrow>
   schemaObject rt (JString s) = fallbackSchema"
  by (simp add: schemaObject_def)

lemma schemaObject_object_no_type:
  "''type'' \<notin> fst ` set kvs \<Longrightarrow> schemaObject rt (JObject kvs) = fallbackSchema"
  by (simp add: schemaObject_def)

lemma mockParse_values:
  "mockParse ''not json'' = None"
  "mockParse ''42'' = Some (JNumber 42)"
  "mockParse ''{}'' = Some (JObject [])"
  by (simp_all add: mockParse_def)


lemma roundTrip_blocks:
  assumes "content msg = BlockContent blocks" and "filter supported blocks \<noteq> []"
  shows "roundTrip rt msg = map resigned (filter supported blocks)"
proof -
  have "mappedContent blocks \<noteq> []"
    using assms(2) by (simp add: mappedContent_empty_iff)
  then have "paramContent (formatMessage rt msg) = BlocksParam (mappedContent blocks)"
    using assms(1) by (simp add: formatMessage_def)
  then show ?thesis
    by (simp add: roundTrip_def echo_def echo_mappedContent)
qed

section \<open>Claim C1: the round trip of text and thinking blocks\<close>

text \<open>
  The claim as stated fails. A thinking block sent with the signature \<open>test-sig\<close> and
  echoed by the vendor comes back with the signature \<open>anthropic\<close>: the inbound loop
  writes that literal and never reads the vendor's signature. And the empty sequence,
  which holds supported kinds only, goes out as the fallback string \<open>[]\<close> and comes
  back as one text block.
\<close>

theorem roundTrip_loses_signature:
  "list_all supported [ThinkingBlock ''Let me think...'' ''test-sig''] \<and>
   roundTrip (mockRuntime (mockApiResponse (Some 50) (Some 5)))
     \<lparr> role = ''user'', content = BlockContent [ThinkingBlock ''Let me think...'' ''test-sig''] \<rparr>
     = [ThinkingBlock ''Let me think...'' ''anthropic''] \<and>
   [ThinkingBlock ''Let me think...'' ''anthropic''] \<noteq> [ThinkingBlock ''Let me think...'' ''test-sig''] \<and>
   roundTrip (mockRuntime (mockApiResponse (Some 50) (Some 5)))
     \<lparr> role = ''user'', content = BlockContent [] \<rparr>
     = [TextBlock ''[]'']"
  by (simp add: roundTrip_def formatMessage_def mappedContent_def echo_def contentBlocks_def
      JSON_stringify_content_def)

text \<open>
  Claim C1, amended. For every non-empty sequence of text and thinking blocks, mapping it
  outbound by the message formatting of \<open>generateResponse\<close> and mapping the vendor's echo
  back inbound keeps the number and the order of the blocks; a text block comes back as
  a text block with the same text, and a thinking block comes back as a thinking block
  with the same thinking text and the signature \<open>anthropic\<close>, whatever signature it was
  sent with.
\<close>

theorem roundTrip_supported:
  assumes "content msg = BlockContent blocks"
    and "blocks \<noteq> []"
    and "list_all supported blocks"
  shows "roundTrip rt msg = map resigned blocks \<and>
         resigned (TextBlock t) = TextBlock t \<and>
         resigned (ThinkingBlock th sig) = ThinkingBlock th ''anthropic''"
proof -
  have f: "filter supported blocks = blocks"
    using assms(3) by (simp add: list_all_iff)
  with assms(2) have "filter supported blocks \<noteq> []" by simp
  from roundTrip_blocks [OF assms(1) this, of rt] f show ?thesis by simp
qed

theorem roundTrip_supported_witness:
  "content \<lparr> role = ''user'',
             content = BlockContent [TextBlock ''Hello Claude!'', ThinkingBlock ''Let me think...'' ''test-sig''] \<rparr>
     = BlockContent [TextBlock ''Hello Claude!'', ThinkingBlock ''Let me think...'' ''test-sig''] \<and>
   [TextBlock ''Hello Claude!'', ThinkingBlock ''Let me think...'' ''test-sig''] \<noteq> [] \<and>
   list_all supported [TextBlock ''Hello Claude!'', ThinkingBlock ''Let me think...'' ''test-sig''] \<and>
   roundTrip (mockRuntime (mockApiResponse (Some 50) (Some 5)))
     \<lparr> role = ''user'',
       content = BlockContent [TextBlock ''Hello Claude!'', ThinkingBlock ''Let me think...'' ''test-sig''] \<rparr>
     = [TextBlock ''Hello Claude!'', ThinkingBlock ''Let me think...'' ''anthropic'']"
  using roundTrip_supported
    [of "\<lparr> role = ''user'',
           content = BlockContent [TextBlock ''Hello Claude!'', ThinkingBlock ''Let me think...'' ''test-sig''] \<rparr>"
        "[TextBlock ''Hello Claude!'', ThinkingBlock ''Let me think...'' ''test-sig'']"
        "mockRuntime (mockApiResponse (Some 50) (Some 5))"]
  by simp

section \<open>Claim C2: the fallback for a message with nothing to send\<close>



section \<open>Claim C3: sendMCPChat\<close>

text \<open>
  Claim C3 asks that \<open>sendMCPChat\<close> fail, for every chat and every tool, with an error
  that carries the fixed message \<open>Direct MCP tool execution is not handled within the
  AIVendorAdapter. The calling application must manage tool definition, execution, and
  result submission.\<close>, and the repository's test of the adapter asserts that very
  message. The class of \<open>anthropic.ts\<close> has no such member, so nothing in it throws
  that error: the code does not do what its own test and the claim require. No theorem
  is stated, since there is no function to state it of.
\<close>

section \<open>Claim C4: when usage is populated\<close>

text \<open>
  The claim as stated fails twice. First, with both token counts present in the
  response (0 and 5) and both rates stored on the adapter, the response carries no
  usage: the guard tests the truthiness of the four values, and 0 is falsy. Second, at
  the rates 15/1,000,000 and 75/1,000,000 and a response of 10 input and 5 output
  tokens, \<open>inputCost\<close> is \<open>computeResponseCost\<close> of 10 and the rate, which divides the
  rate by 1,000,000 once more: it lies below 0.000000001 and is not the 0.00015 of the
  claim, the product of the token count and the configured rate; likewise
  \<open>outputCost\<close> and \<open>totalCost\<close> are not 0.000375 and 0.000525.
\<close>

theorem usage_not_as_claimed:
  "input_tokens (vendorUsage (mockApiResponse (Some 0) (Some 5))) = Some 0 \<and>
   output_tokens (vendorUsage (mockApiResponse (Some 0) (Some 5))) = Some 5 \<and>
   inputTokenCost (new_AnthropicAdapter (mockRuntime (mockApiResponse (Some 0) (Some 5)))
      mockConfig mockClaude3Opus) = Some (15 / 1000000) \<and>
   outputTokenCost (new_AnthropicAdapter (mockRuntime (mockApiResponse (Some 0) (Some 5)))
      mockConfig mockClaude3Opus) = Some (75 / 1000000) \<and>
   generateResponse (mockRuntime (mockApiResponse (Some 0) (Some 5)))
      (new_AnthropicAdapter (mockRuntime (mockApiResponse (Some 0) (Some 5))) mockConfig mockClaude3Opus)
      basicOptions
     = Inr \<lparr> responseRole = ''assistant'', responseContent = [TextBlock ''Hi there!''], usage = None \<rparr> \<and>
   generateResponse (mockRuntime (mockApiResponse (Some 10) (Some 5)))
      (new_AnthropicAdapter (mockRuntime (mockApiResponse (Some 10) (Some 5))) mockConfig mockClaude3Opus)
      basicOptions
     = Inr \<lparr> responseRole = ''assistant'',
             responseContent = [TextBlock ''Hi there!''],
             usage = Some \<lparr> inputCost = computeResponseCost 10 (15 / 1000000),
                            outputCost = computeResponseCost 5 (75 / 1000000),
                            totalCost = computeResponseCost 10 (15 / 1000000) +
                                        computeResponseCost 5 (75 / 1000000) \<rparr> \<rparr> \<and>
   computeResponseCost 10 (15 / 1000000) < 0.000000001 \<and>
   computeResponseCost 5 (75 / 1000000) < 0.000000001 \<and>
   computeResponseCost 10 (15 / 1000000) + computeResponseCost 5 (75 / 1000000) < 0.000000001 \<and>
   (0.000000001 :: number) < 10 * (15 / 1000000) \<and>
   (10 :: number) * (15 / 1000000) = 0.00015"
  by (simp add: generateResponse_def new_AnthropicAdapter_fields mockRuntime_fields
      mockApiResponse_fields mockClaude3Opus_fields responseUsage_def truthy_def contentBlocks_def
      computeResponseCost_def)

text \<open>
  Claim C4, amended. When the vendor answers, \<open>generateResponse\<close> populates usage if and
  only if both token counts of the response and both rates stored on the adapter are
  present and different from zero. When populated, \<open>inputCost\<close> is
  \<open>computeResponseCost\<close> of the input token count and the stored input rate,
  \<open>outputCost\<close> is \<open>computeResponseCost\<close> of the output token count and the stored output
  rate, and \<open>totalCost\<close> is their sum, where \<open>computeResponseCost\<close> multiplies the token
  count by the rate divided by 1,000,000. Otherwise usage is omitted, never defaulted
  to zero. The example after the theorem evaluates the scenario at the rates
  15/1,000,000 and 75/1,000,000 with 10 input and 5 output tokens: the three costs are
  the expressions above, and they are 1.5e-10, 3.75e-10 and 5.25e-10 to within 1e-20.
\<close>

theorem usage_populated_iff_truthy:
  assumes "client this (createParams rt this options) = Inr response"
  shows "\<exists>r. generateResponse rt this options = Inr r \<and>
     usage r =
       (case (input_tokens (vendorUsage response), output_tokens (vendorUsage response),
              inputTokenCost this, outputTokenCost this) of
          (Some i, Some out, Some a, Some b) \<Rightarrow>
            if i \<noteq> 0 \<and> out \<noteq> 0 \<and> a \<noteq> 0 \<and> b \<noteq> 0
            then Some \<lparr> inputCost = computeResponseCost i a,
                        outputCost = computeResponseCost out b,
                        totalCost = computeResponseCost i a + computeResponseCost out b \<rparr>
            else None
        | _ \<Rightarrow> None) \<and>
     computeResponseCost tokenCount rate = tokenCount * (rate / 1000000)"
  using generateResponse_Inr [OF assms]
  by (simp add: responseUsage_def truthy_def computeResponseCost_def Let_def split: option.splits)

theorem usage_populated_iff_truthy_witness:
  "client (new_AnthropicAdapter (mockRuntime (mockApiResponse (Some 10) (Some 5))) mockConfig mockClaude3Opus)
      (createParams (mockRuntime (mockApiResponse (Some 10) (Some 5)))
         (new_AnthropicAdapter (mockRuntime (mockApiResponse (Some 10) (Some 5))) mockConfig mockClaude3Opus)
         basicOptions)
     = Inr (mockApiResponse (Some 10) (Some 5)) \<and>
   generateResponse (mockRuntime (mockApiResponse (Some 10) (Some 5)))
      (new_AnthropicAdapter (mockRuntime (mockApiResponse (Some 10) (Some 5))) mockConfig mockClaude3Opus)
      basicOptions
     = Inr \<lparr> responseRole = ''assistant'',
             responseContent = [TextBlock ''Hi there!''],
             usage = Some \<lparr> inputCost = computeResponseCost 10 (15 / 1000000),
                            outputCost = computeResponseCost 5 (75 / 1000000),
                            totalCost = computeResponseCost 10 (15 / 1000000) +
                                        computeResponseCost 5 (75 / 1000000) \<rparr> \<rparr> \<and>
   \<bar>computeResponseCost 10 (15 / 1000000) - 0.00000000015\<bar> < 0.00000000000000000001 \<and>
   \<bar>computeResponseCost 5 (75 / 1000000) - 0.000000000375\<bar> < 0.00000000000000000001 \<and>
   \<bar>computeResponseCost 10 (15 / 1000000) + computeResponseCost 5 (75 / 1000000) - 0.000000000525\<bar>
     < 0.00000000000000000001"
proof -
  let ?rt = "mockRuntime (mockApiResponse (Some 10) (Some 5))"
  let ?ad = "new_AnthropicAdapter ?rt mockConfig mockClaude3Opus"
  let ?u = "Some \<lparr> inputCost = computeResponseCost 10 (15 / 1000000),
                    outputCost = computeResponseCost 5 (75 / 1000000),
                    totalCost = computeResponseCost 10 (15 / 1000000) +
                                computeResponseCost 5 (75 / 1000000) \<rparr>"
  have c: "client ?ad (createParams ?rt ?ad basicOptions) = Inr (mockApiResponse (Some 10) (Some 5))"
    by (simp add: new_AnthropicAdapter_fields mockRuntime_fields)
  have g: "generateResponse ?rt ?ad basicOptions =
      Inr \<lparr> responseRole = ''assistant'',
            responseContent = contentBlocks ?rt (vendorContent (mockApiResponse (Some 10) (Some 5))),
            usage = responseUsage ?ad (mockApiResponse (Some 10) (Some 5)) \<rparr>"
    by (rule generateResponse_Inr [OF c])
  from usage_populated_iff_truthy [OF c, of 0 0] obtain r where
    r: "generateResponse ?rt ?ad basicOptions = Inr r"
    and u: "usage r = ?u"
    by (auto simp add: new_AnthropicAdapter_fields mockApiResponse_fields mockClaude3Opus_fields
        truthy_def)
  from r g u have "responseUsage ?ad (mockApiResponse (Some 10) (Some 5)) = ?u"
    by auto
  moreover have "contentBlocks ?rt (vendorContent (mockApiResponse (Some 10) (Some 5))) = [TextBlock ''Hi there!'']"
    by (simp add: contentBlocks_def mockApiResponse_fields)
  moreover have
    "\<bar>computeResponseCost 10 (15 / 1000000) - 0.00000000015\<bar> < 0.00000000000000000001"
    "\<bar>computeResponseCost 5 (75 / 1000000) - 0.000000000375\<bar> < 0.00000000000000000001"
    "\<bar>computeResponseCost 10 (15 / 1000000) + computeResponseCost 5 (75 / 1000000) - 0.000000000525\<bar>
       < 0.00000000000000000001"
    by (simp_all add: computeResponseCost_def)
  ultimately show ?thesis using c g by simp
qed

section \<open>Claim C5: what sendChat hands to generateResponse\<close>

text \<open>
  Claim C5. For every chat, \<open>sendChat\<close> builds the outbound messages as
  \<open>chat.responseHistory\<close> followed, when the prompt is not empty, by one user message
  that wraps the prompt as a single text block; it derives \<open>thinkingMode\<close> as
  \<open>budgetTokens > 0\<close>, so that a budget of 500 gives \<open>thinkingMode = true\<close> with the
  budget 500 passed unchanged, and no budget gives \<open>thinkingMode = false\<close> with no budget
  passed; it delegates to \<open>generateResponse\<close> and returns its role, content and usage
  unchanged (a failure of \<open>generateResponse\<close> included).
\<close>

theorem sendChat_assembles_and_delegates:
  "sendChat rt this chat = generateResponse rt this (sendChatOptions rt chat) \<and>
   messages (sendChatOptions rt chat) =
     responseHistory chat @
     (if prompt chat = [] then []
      else [\<lparr> role = ''user'', content = BlockContent [TextBlock (prompt chat)] \<rparr>]) \<and>
   thinkingMode (sendChatOptions rt chat) = Some (\<exists>b. chatBudgetTokens chat = Some b \<and> 0 < b) \<and>
   (chatBudgetTokens chat = Some 500 \<longrightarrow>
      thinkingMode (sendChatOptions rt chat) = Some True \<and>
      budgetTokens (sendChatOptions rt chat) = Some 500) \<and>
   (chatBudgetTokens chat = None \<longrightarrow>
      thinkingMode (sendChatOptions rt chat) = Some False \<and>
      budgetTokens (sendChatOptions rt chat) = None)"
proof -
  have "sendChat rt this chat = generateResponse rt this (sendChatOptions rt chat)"
    by (cases "generateResponse rt this (sendChatOptions rt chat)") (simp_all add: sendChat_def)
  moreover have "messages (sendChatOptions rt chat) =
     responseHistory chat @
     (if prompt chat = [] then []
      else [\<lparr> role = ''user'', content = BlockContent [TextBlock (prompt chat)] \<rparr>])"
    by (simp add: sendChatOptions_def messagesToSend_def)
  moreover have "thinkingMode (sendChatOptions rt chat) = Some (\<exists>b. chatBudgetTokens chat = Some b \<and> 0 < b)"
    by (cases "chatBudgetTokens chat") (simp_all add: sendChatOptions_def)
  moreover have "chatBudgetTokens chat = Some 500 \<longrightarrow>
      thinkingMode (sendChatOptions rt chat) = Some True \<and>
      budgetTokens (sendChatOptions rt chat) = Some 500"
    by (simp add: sendChatOptions_def or_undefined_def truthy_def)
  moreover have "chatBudgetTokens chat = None \<longrightarrow>
      thinkingMode (sendChatOptions rt chat) = Some False \<and>
      budgetTokens (sendChatOptions rt chat) = None"
    by (simp add: sendChatOptions_def or_undefined_def truthy_def)
  ultimately show ?thesis by blast
qed

theorem sendChat_assembles_and_delegates_witness:
  "chatBudgetTokens (baseChat\<lparr>chatBudgetTokens := Some 500\<rparr>) = Some 500 \<and>
   thinkingMode (sendChatOptions (mockRuntime (mockApiResponse (Some 10) (Some 5))) (baseChat\<lparr>chatBudgetTokens := Some 500\<rparr>)) = Some True \<and>
   budgetTokens (sendChatOptions (mockRuntime (mockApiResponse (Some 10) (Some 5))) (baseChat\<lparr>chatBudgetTokens := Some 500\<rparr>)) = Some 500 \<and>
   chatBudgetTokens baseChat = None \<and>
   thinkingMode (sendChatOptions (mockRuntime (mockApiResponse (Some 10) (Some 5))) baseChat) = Some False \<and>
   budgetTokens (sendChatOptions (mockRuntime (mockApiResponse (Some 10) (Some 5))) baseChat) = None \<and>
   messages (sendChatOptions (mockRuntime (mockApiResponse (Some 10) (Some 5))) baseChat) =
     [\<lparr> role = ''user'', content = BlockContent [TextBlock ''User prompt''] \<rparr>]"
  using sendChat_assembles_and_delegates [of "mockRuntime (mockApiResponse (Some 10) (Some 5))" _ "baseChat\<lparr>chatBudgetTokens := Some 500\<rparr>"]
        sendChat_assembles_and_delegates [of "mockRuntime (mockApiResponse (Some 10) (Some 5))" _ baseChat]
  by (simp add: baseChat_fields)

section \<open>Claim C6: max_tokens and the reasoning budget\<close>

text \<open>
  The claim as stated fails on the budget. With \<open>thinkingMode\<close> set on a thinking-capable
  adapter and \<open>budgetTokens = -1\<close>, the request carries the budget -1, where the claim
  has half of 1024; and with no budget and \<open>maxTokens = 0\<close> the request carries 512,
  where the claim has half of 0. The source tests truthiness (\<open>||\<close>), not the sign.
\<close>

theorem budget_not_as_specified:
  "thinkingMode (basicOptions\<lparr>thinkingMode := Some True, budgetTokens := Some (- 1)\<rparr>) = Some True \<and>
   isThinkingCapable (new_AnthropicAdapter (mockRuntime (mockApiResponse (Some 10) (Some 5))) mockConfig mockClaude3Opus) \<and>
   requestThinking (createParams (mockRuntime (mockApiResponse (Some 10) (Some 5)))
      (new_AnthropicAdapter (mockRuntime (mockApiResponse (Some 10) (Some 5))) mockConfig mockClaude3Opus)
      (basicOptions\<lparr>thinkingMode := Some True, budgetTokens := Some (- 1)\<rparr>))
     = Some \<lparr> thinkingType = ''enabled'', budget_tokens = - 1 \<rparr> \<and>
   specBudget (Some (- 1)) None = 512 \<and>
   requestThinking (createParams (mockRuntime (mockApiResponse (Some 10) (Some 5)))
      (new_AnthropicAdapter (mockRuntime (mockApiResponse (Some 10) (Some 5))) mockConfig mockClaude3Opus)
      (basicOptions\<lparr>thinkingMode := Some True, maxTokens := Some 0\<rparr>))
     = Some \<lparr> thinkingType = ''enabled'', budget_tokens = 512 \<rparr> \<and>
   specBudget None (Some 0) = 0"
  by (simp add: createParams_def new_AnthropicAdapter_fields mockClaude3Opus_fields basicOptions_def
      or_default_def truthy_def specBudget_def Math_floor_def)

text \<open>
  Claim C6, amended. In \<open>generateResponse\<close>, \<open>max_tokens\<close> is \<open>maxTokens\<close>, or 1024 when
  \<open>maxTokens\<close> is unset or zero; the \<open>thinkingMode\<close> flag is honored exactly when it is
  true and the adapter's \<open>isThinkingCapable\<close> flag is true; and when honored, the budget
  sent to the vendor is \<open>budgetTokens\<close> if it is set and not zero (a negative budget is
  passed as it is), else the integer floor of half of the \<open>max_tokens\<close> sent. For a
  budget that is unset or not negative and a \<open>maxTokens\<close> other than zero, that is the
  budget of the specification: \<open>budgetTokens\<close> if positive, else the floor of half of
  \<open>maxTokens\<close> (half of 1024 when \<open>maxTokens\<close> is unset).
\<close>

theorem createParams_token_budget:
  "max_tokens (createParams rt this options) =
     (case maxTokens options of None \<Rightarrow> 1024 | Some m \<Rightarrow> if m = 0 then 1024 else m) \<and>
   (requestThinking (createParams rt this options) \<noteq> None) =
     (thinkingMode options = Some True \<and> isThinkingCapable this) \<and>
   (thinkingMode options = Some True \<and> isThinkingCapable this \<longrightarrow>
      requestThinking (createParams rt this options) =
        Some \<lparr> thinkingType = ''enabled'',
               budget_tokens =
                 (case budgetTokens options of
                    None \<Rightarrow> Math_floor (max_tokens (createParams rt this options) / 2)
                  | Some b \<Rightarrow>
                      if b = 0 then Math_floor (max_tokens (createParams rt this options) / 2) else b) \<rparr>) \<and>
   (thinkingMode options = Some True \<and> isThinkingCapable this \<and>
    (\<forall>b. budgetTokens options = Some b \<longrightarrow> 0 \<le> b) \<and> maxTokens options \<noteq> Some 0 \<longrightarrow>
      requestThinking (createParams rt this options) =
        Some \<lparr> thinkingType = ''enabled'',
               budget_tokens = specBudget (budgetTokens options) (maxTokens options) \<rparr>)"
  by (auto simp add: createParams_def or_default_def truthy_def specBudget_def Let_def
      split: option.splits)

theorem createParams_token_budget_witness:
  "thinkingMode (basicOptions\<lparr>thinkingMode := Some True\<rparr>) = Some True \<and>
   isThinkingCapable (new_AnthropicAdapter (mockRuntime (mockApiResponse (Some 10) (Some 5))) mockConfig mockClaude3Opus) \<and>
   max_tokens (createParams (mockRuntime (mockApiResponse (Some 10) (Some 5)))
      (new_AnthropicAdapter (mockRuntime (mockApiResponse (Some 10) (Some 5))) mockConfig mockClaude3Opus)
      (basicOptions\<lparr>thinkingMode := Some True\<rparr>)) = 1024 \<and>
   requestThinking (createParams (mockRuntime (mockApiResponse (Some 10) (Some 5)))
      (new_AnthropicAdapter (mockRuntime (mockApiResponse (Some 10) (Some 5))) mockConfig mockClaude3Opus)
      (basicOptions\<lparr>thinkingMode := Some True\<rparr>))
     = Some \<lparr> thinkingType = ''enabled'', budget_tokens = 512 \<rparr>"
  using createParams_token_budget [of "mockRuntime (mockApiResponse (Some 10) (Some 5))"
      "new_AnthropicAdapter (mockRuntime (mockApiResponse (Some 10) (Some 5))) mockConfig mockClaude3Opus"
      "basicOptions\<lparr>thinkingMode := Some True\<rparr>"]
  by (simp add: new_AnthropicAdapter_fields mockClaude3Opus_fields basicOptions_def Math_floor_def)

section \<open>Claim C7: failures local to the mapping are absorbed\<close>

text \<open>
  Claim C7. No failure local to the mapping aborts a chat call. A tool definition whose
  \<open>input_schema\<close> is a string that \<open>JSON.parse\<close> rejects, or a string that parses to
  something that is not an object, or that (as a string or as an object) lacks a
  \<open>type\<close> field, is mapped to a tool with the same name and description and the
  fallback schema \<open>{type: "object", properties: {}}\<close>; the mapping is a value, not an
  error. The tools of a chat reach the vendor's request so mapped. An inbound block of
  an unrecognized kind is omitted from the canonical content and the blocks around it
  are kept. And \<open>sendChat\<close> answers whenever the vendor's client answers: it fails with
  an error exactly when the client rejects with that error.
\<close>

theorem mapping_failures_absorbed:
  "(input_schema tool = JString s \<and> JSON_parse rt s = None \<longrightarrow>
      formatTool rt tool =
        \<lparr> anthropicName = toolName tool, anthropicDescription = toolDescription tool,
          anthropicInputSchema = fallbackSchema \<rparr>) \<and>
   (input_schema tool = JString s \<and> JSON_parse rt s = Some v \<and> (\<forall>kvs. v \<noteq> JObject kvs) \<longrightarrow>
      formatTool rt tool =
        \<lparr> anthropicName = toolName tool, anthropicDescription = toolDescription tool,
          anthropicInputSchema = fallbackSchema \<rparr>) \<and>
   (input_schema tool = JString s \<and> JSON_parse rt s = Some (JObject kvs) \<and> ''type'' \<notin> fst ` set kvs \<longrightarrow>
      formatTool rt tool =
        \<lparr> anthropicName = toolName tool, anthropicDescription = toolDescription tool,
          anthropicInputSchema = fallbackSchema \<rparr>) \<and>
   (input_schema tool = JObject kvs \<and> ''type'' \<notin> fst ` set kvs \<longrightarrow>
      formatTool rt tool =
        \<lparr> anthropicName = toolName tool, anthropicDescription = toolDescription tool,
          anthropicInputSchema = fallbackSchema \<rparr>) \<and>
   fallbackSchema = JObject [(''type'', JString ''object''), (''properties'', JObject [])] \<and>
   (mcpAvailableTools chat = Some ts \<and> ts \<noteq> [] \<longrightarrow>
      requestTools (createParams rt this (sendChatOptions rt chat)) = Some (map (formatTool rt) ts)) \<and>
   contentBlocks rt (before @ [OtherBlock tag] @ after) = contentBlocks rt (before @ after) \<and>
   (client this (createParams rt this (sendChatOptions rt chat)) = Inr response \<longrightarrow>
      sendChat rt this chat =
        Inr \<lparr> responseRole = ''assistant'',
              responseContent = contentBlocks rt (vendorContent response),
              usage = responseUsage this response \<rparr>) \<and>
   (sendChat rt this chat = Inl e) =
     (client this (createParams rt this (sendChatOptions rt chat)) = Inl e)"
proof -
  have a: "input_schema tool = JString s \<and> JSON_parse rt s = None \<longrightarrow>
      formatTool rt tool =
        \<lparr> anthropicName = toolName tool, anthropicDescription = toolDescription tool,
          anthropicInputSchema = fallbackSchema \<rparr>"
    by (simp add: formatTool_def schemaObject_unparseable)
  have b: "input_schema tool = JString s \<and> JSON_parse rt s = Some v \<and> (\<forall>kvs. v \<noteq> JObject kvs) \<longrightarrow>
      formatTool rt tool =
        \<lparr> anthropicName = toolName tool, anthropicDescription = toolDescription tool,
          anthropicInputSchema = fallbackSchema \<rparr>"
    using schemaObject_not_object [of rt s v] by (simp add: formatTool_def)
  have c: "input_schema tool = JString s \<and> JSON_parse rt s = Some (JObject kvs) \<and> ''type'' \<notin> fst ` set kvs \<longrightarrow>
      formatTool rt tool =
        \<lparr> anthropicName = toolName tool, anthropicDescription = toolDescription tool,
          anthropicInputSchema = fallbackSchema \<rparr>"
    using schemaObject_parsed_no_type [of rt s kvs] by (simp add: formatTool_def)
  have d: "input_schema tool = JObject kvs \<and> ''type'' \<notin> fst ` set kvs \<longrightarrow>
      formatTool rt tool =
        \<lparr> anthropicName = toolName tool, anthropicDescription = toolDescription tool,
          anthropicInputSchema = fallbackSchema \<rparr>"
    using schemaObject_object_no_type [of kvs rt] by (simp add: formatTool_def)
  have t: "mcpAvailableTools chat = Some ts \<and> ts \<noteq> [] \<longrightarrow>
      requestTools (createParams rt this (sendChatOptions rt chat)) = Some (map (formatTool rt) ts)"
    by (simp add: createParams_def sendChatOptions_def formattedTools_def)
  have f: "client this (createParams rt this (sendChatOptions rt chat)) = Inr response \<longrightarrow>
      sendChat rt this chat =
        Inr \<lparr> responseRole = ''assistant'',
              responseContent = contentBlocks rt (vendorContent response),
              usage = responseUsage this response \<rparr>"
    by (simp add: sendChat_eq generateResponse_Inr)
  have g: "(sendChat rt this chat = Inl e) =
     (client this (createParams rt this (sendChatOptions rt chat)) = Inl e)"
    by (simp add: sendChat_eq generateResponse_def split: sum.splits)
  from a b c d t f g show ?thesis
    by (simp only: contentBlocks_OtherBlock fallbackSchema_def simp_thms)
qed

theorem mapping_failures_absorbed_witness:
  "JSON_parse (mockRuntime responseWithUnknownBlock) ''not json'' = None \<and>
   JSON_parse (mockRuntime responseWithUnknownBlock) ''42'' = Some (JNumber 42) \<and>
   JSON_parse (mockRuntime responseWithUnknownBlock) ''{}'' = Some (JObject []) \<and>
   map (formatTool (mockRuntime responseWithUnknownBlock)) badTools =
     [\<lparr> anthropicName = ''search'', anthropicDescription = ''Search the web'', anthropicInputSchema = fallbackSchema \<rparr>,
      \<lparr> anthropicName = ''count'', anthropicDescription = ''Count things'', anthropicInputSchema = fallbackSchema \<rparr>,
      \<lparr> anthropicName = ''list'', anthropicDescription = ''List things'', anthropicInputSchema = fallbackSchema \<rparr>,
      \<lparr> anthropicName = ''read'', anthropicDescription = ''Read a file'', anthropicInputSchema = fallbackSchema \<rparr>] \<and>
   requestTools
     (createParams (mockRuntime responseWithUnknownBlock)
        (new_AnthropicAdapter (mockRuntime responseWithUnknownBlock) mockConfig mockClaude3Opus)
        (sendChatOptions (mockRuntime responseWithUnknownBlock)
           (baseChat\<lparr>mcpAvailableTools := Some badTools\<rparr>)))
     = Some (map (formatTool (mockRuntime responseWithUnknownBlock)) badTools) \<and>
   sendChat (mockRuntime responseWithUnknownBlock)
     (new_AnthropicAdapter (mockRuntime responseWithUnknownBlock) mockConfig mockClaude3Opus)
     (baseChat\<lparr>mcpAvailableTools := Some badTools\<rparr>)
     = Inr \<lparr> responseRole = ''assistant'',
             responseContent = [TextBlock ''Hi there!''],
             usage = Some \<lparr> inputCost = computeResponseCost 10 (15 / 1000000),
                            outputCost = computeResponseCost 5 (75 / 1000000),
                            totalCost = computeResponseCost 10 (15 / 1000000) +
                                        computeResponseCost 5 (75 / 1000000) \<rparr> \<rparr>"
proof -
  let ?rt = "mockRuntime responseWithUnknownBlock"
  let ?ad = "new_AnthropicAdapter ?rt mockConfig mockClaude3Opus"
  let ?chat = "baseChat\<lparr>mcpAvailableTools := Some badTools\<rparr>"
  have p: "JSON_parse ?rt ''not json'' = None" "JSON_parse ?rt ''42'' = Some (JNumber 42)"
    "JSON_parse ?rt ''{}'' = Some (JObject [])"
    by (simp_all add: mockRuntime_fields mockParse_values)
  have t1: "formatTool ?rt (badTools ! 0) =
      \<lparr> anthropicName = ''search'', anthropicDescription = ''Search the web'', anthropicInputSchema = fallbackSchema \<rparr>"
    using mapping_failures_absorbed [where tool = "badTools ! 0" and s = "''not json''" and rt = ?rt] p
    by (simp add: badTools_def)
  have t2: "formatTool ?rt (badTools ! 1) =
      \<lparr> anthropicName = ''count'', anthropicDescription = ''Count things'', anthropicInputSchema = fallbackSchema \<rparr>"
    using mapping_failures_absorbed [where tool = "badTools ! 1" and s = "''42''" and rt = ?rt and v = "JNumber 42"] p
    by (simp add: badTools_def)
  have t3: "formatTool ?rt (badTools ! 2) =
      \<lparr> anthropicName = ''list'', anthropicDescription = ''List things'', anthropicInputSchema = fallbackSchema \<rparr>"
    using mapping_failures_absorbed [where tool = "badTools ! 2" and s = "''{}''" and rt = ?rt and kvs = "[]"] p
    by (simp add: badTools_def)
  have t4: "formatTool ?rt (badTools ! 3) =
      \<lparr> anthropicName = ''read'', anthropicDescription = ''Read a file'', anthropicInputSchema = fallbackSchema \<rparr>"
    using mapping_failures_absorbed [where tool = "badTools ! 3" and rt = ?rt and kvs = "[(''properties'', JObject [])]"]
    by (simp add: badTools_def)
  have m: "map (formatTool ?rt) badTools =
      [formatTool ?rt (badTools ! 0), formatTool ?rt (badTools ! 1),
       formatTool ?rt (badTools ! 2), formatTool ?rt (badTools ! 3)]"
    by (simp add: badTools_def)
  have c: "client ?ad (createParams ?rt ?ad (sendChatOptions ?rt ?chat)) = Inr responseWithUnknownBlock"
    by (simp add: new_AnthropicAdapter_fields mockRuntime_fields)
  have "sendChat ?rt ?ad ?chat =
      Inr \<lparr> responseRole = ''assistant'',
            responseContent = contentBlocks ?rt (vendorContent responseWithUnknownBlock),
            usage = responseUsage ?ad responseWithUnknownBlock \<rparr>"
    using mapping_failures_absorbed
      [where rt = ?rt and this = ?ad and chat = ?chat and response = responseWithUnknownBlock] c
    by simp
  moreover have "requestTools (createParams ?rt ?ad (sendChatOptions ?rt ?chat)) = Some (map (formatTool ?rt) badTools)"
    using mapping_failures_absorbed [where rt = ?rt and this = ?ad and chat = ?chat and ts = badTools]
    by (simp add: badTools_def)
  moreover have "contentBlocks ?rt (vendorContent responseWithUnknownBlock) = [TextBlock ''Hi there!'']"
    by (simp add: contentBlocks_def responseWithUnknownBlock_def)
  moreover have "responseUsage ?ad responseWithUnknownBlock =
      Some \<lparr> inputCost = computeResponseCost 10 (15 / 1000000),
             outputCost = computeResponseCost 5 (75 / 1000000),
             totalCost = computeResponseCost 10 (15 / 1000000) +
                         computeResponseCost 5 (75 / 1000000) \<rparr>"
    by (simp add: responseUsage_def new_AnthropicAdapter_fields mockClaude3Opus_fields truthy_def
        responseWithUnknownBlock_def Let_def)
  ultimately show ?thesis using p t1 t2 t3 t4 m by simp
qed

section \<open>Claim C8: generateImage\<close>

text \<open>
  Claim C8. For every chat, \<open>generateImage\<close> on an adapter constructed from a model
  configuration whose image-generation flag is false fails with the error
  \<open>Image generation not supported by Anthropic\<close>; the adapter carries the flag as
  false, refuses by itself, and never answers a value. (The body throws without
  reading the flag, so the same holds for every adapter of this class.)
\<close>

theorem generateImage_unsupported:
  assumes "isImageGeneration modelConfig = False"
  shows "isImageGenerationCapable (new_AnthropicAdapter rt config modelConfig) = False \<and>
         generateImage (new_AnthropicAdapter rt config modelConfig) chat =
           Inl (Error ''Image generation not supported by Anthropic'')"
  using assms by (simp add: new_AnthropicAdapter_fields generateImage_def)

theorem generateImage_unsupported_witness:
  "isImageGeneration mockClaude3Opus = False \<and>
   generateImage (new_AnthropicAdapter (mockRuntime (mockApiResponse (Some 10) (Some 5))) mockConfig mockClaude3Opus)
     (baseChat\<lparr>prompt := ''test''\<rparr>)
   = Inl (Error ''Image generation not supported by Anthropic'')"
  using generateImage_unsupported [of mockClaude3Opus "mockRuntime (mockApiResponse (Some 10) (Some 5))" mockConfig
      "baseChat\<lparr>prompt := ''test''\<rparr>"]
  by (simp add: mockClaude3Opus_fields)

section \<open>Claim C9: the signature of thinking blocks\<close>



section \<open>Claim C10: usage is omitted on falsy values\<close>

text \<open>
  Claim C10. For an adapter built by the constructor, whenever the vendor answers with
  \<open>input_tokens = 0\<close> or \<open>output_tokens = 0\<close>, or either configured cost is 0, or only
  one of the two costs is configured, the response carries no usage, although the
  values are present; and in the cases on the costs, neither cost is stored on the
  adapter.
\<close>

theorem usage_omitted_on_falsy_values:
  assumes "this = new_AnthropicAdapter rt config modelConfig"
    and "client this (createParams rt this options) = Inr response"
    and "input_tokens (vendorUsage response) = Some 0 \<or>
         output_tokens (vendorUsage response) = Some 0 \<or>
         modelInputTokenCost modelConfig = Some 0 \<or>
         modelOutputTokenCost modelConfig = Some 0 \<or>
         modelInputTokenCost modelConfig = None \<or>
         modelOutputTokenCost modelConfig = None"
  shows "generateResponse rt this options =
           Inr \<lparr> responseRole = ''assistant'',
                 responseContent = contentBlocks rt (vendorContent response),
                 usage = None \<rparr> \<and>
         (modelInputTokenCost modelConfig = Some 0 \<or>
          modelOutputTokenCost modelConfig = Some 0 \<or>
          modelInputTokenCost modelConfig = None \<or>
          modelOutputTokenCost modelConfig = None \<longrightarrow>
            inputTokenCost this = None \<and> outputTokenCost this = None)"
proof -
  have stored: "modelInputTokenCost modelConfig = Some 0 \<or>
          modelOutputTokenCost modelConfig = Some 0 \<or>
          modelInputTokenCost modelConfig = None \<or>
          modelOutputTokenCost modelConfig = None \<longrightarrow>
            inputTokenCost this = None \<and> outputTokenCost this = None"
    using assms(1) by (auto simp add: new_AnthropicAdapter_fields truthy_def)
  have "responseUsage this response = None"
    using assms(3) stored by (auto simp add: responseUsage_def truthy_def)
  with generateResponse_Inr [OF assms(2)] stored show ?thesis by simp
qed

theorem usage_omitted_on_falsy_values_witness:
  "client (new_AnthropicAdapter (mockRuntime (mockApiResponse (Some 10) (Some 5))) mockConfig
            (mockClaude3Opus\<lparr>modelOutputTokenCost := None\<rparr>))
      (createParams (mockRuntime (mockApiResponse (Some 10) (Some 5)))
         (new_AnthropicAdapter (mockRuntime (mockApiResponse (Some 10) (Some 5))) mockConfig
            (mockClaude3Opus\<lparr>modelOutputTokenCost := None\<rparr>))
         basicOptions)
     = Inr (mockApiResponse (Some 10) (Some 5)) \<and>
   modelInputTokenCost (mockClaude3Opus\<lparr>modelOutputTokenCost := None\<rparr>) = Some (15 / 1000000) \<and>
   modelOutputTokenCost (mockClaude3Opus\<lparr>modelOutputTokenCost := None\<rparr>) = None \<and>
   inputTokenCost (new_AnthropicAdapter (mockRuntime (mockApiResponse (Some 10) (Some 5))) mockConfig
            (mockClaude3Opus\<lparr>modelOutputTokenCost := None\<rparr>)) = None \<and>
   outputTokenCost (new_AnthropicAdapter (mockRuntime (mockApiResponse (Some 10) (Some 5))) mockConfig
            (mockClaude3Opus\<lparr>modelOutputTokenCost := None\<rparr>)) = None \<and>
   generateResponse (mockRuntime (mockApiResponse (Some 10) (Some 5)))
      (new_AnthropicAdapter (mockRuntime (mockApiResponse (Some 10) (Some 5))) mockConfig
            (mockClaude3Opus\<lparr>modelOutputTokenCost := None\<rparr>))
      basicOptions
     = Inr \<lparr> responseRole = ''assistant'', responseContent = [TextBlock ''Hi there!''], usage = None \<rparr>"
proof -
  let ?resp = "mockApiResponse (Some 10) (Some 5)"
  let ?rt = "mockRuntime ?resp"
  let ?mc = "mockClaude3Opus\<lparr>modelOutputTokenCost := None\<rparr>"
  let ?ad = "new_AnthropicAdapter ?rt mockConfig ?mc"
  have c: "client ?ad (createParams ?rt ?ad basicOptions) = Inr ?resp"
    by (simp add: new_AnthropicAdapter_fields mockRuntime_fields)
  have m: "modelInputTokenCost ?mc = Some (15 / 1000000)" "modelOutputTokenCost ?mc = None"
    by (simp_all add: mockClaude3Opus_fields)
  have k: "contentBlocks ?rt (vendorContent ?resp) = [TextBlock ''Hi there!'']"
    by (simp add: contentBlocks_def mockApiResponse_fields)
  from usage_omitted_on_falsy_values [OF refl c] m k c show ?thesis by simp
qed

end
